theory Spec2Isabelle
  imports Main
begin

section \<open>JavaScript values, errors and external collaborators\<close>

text \<open>
  The values that reach the modelled code: form inputs are strings, but an integrator may
  pass any value, and the source tests them for truthiness only.
\<close>

datatype jsval = JUndefined | JNull | JBool bool | JNum int | JStr string | JObj string

fun truthy :: "jsval \<Rightarrow> bool" where
  "truthy JUndefined = False"
| "truthy JNull = False"
| "truthy (JBool b) = b"
| "truthy (JNum n) = (n \<noteq> 0)"
| "truthy (JStr s) = (s \<noteq> [])"
| "truthy (JObj s) = True"

text \<open>
  The values built by \<^verbatim>\<open>errors(name, context)\<close> (module \<^verbatim>\<open>./errors\<close>), the errors recorded
  by the hosted fields, the errors an API reply carries, and the two exceptions of the
  JavaScript runtime that the modelled code can raise.
\<close>

datatype error =
    NotConfigured
  | MissingCallback
  | ConfigMissingPublicKey
  | Validation "string list"
  | HostedFieldError string
  | ApiError string
  | TypeError
  | NotFoundError

datatype 's outcome = Return 's | Throw error 's

type_synonym inputs = "string \<Rightarrow> jsval"

text \<open>A reply of the API or of the field context: \<^verbatim>\<open>res.id\<close> is the token's identifier.\<close>

datatype response = Response (res_id: jsval)

text \<open>The body of an event handed to \<^verbatim>\<open>emit\<close>: no body, an object with the optional
  properties \<^verbatim>\<open>err\<close> and \<^verbatim>\<open>token\<close>, an object \<^verbatim>\<open>{ type }\<close> that names a field, or the
  wrapper \<^verbatim>\<open>{ fields: body }\<close>.\<close>

datatype payload =
    PUndefined
  | PObj (p_err: "error option") (p_token: "response option")
  | PType string
  | PFields payload

text \<open>The second argument of \<^verbatim>\<open>recurly.token\<close>: a function of the integrator, named by a
  number, or any other value.\<close>

datatype arg = Function nat | NotFunction jsval

type_synonym fields_cfg = "(string \<times> string) list"

record config =
  publicKey :: string
  api :: string
  currency :: string
  cors :: bool
  isParent :: bool
  parentVersion :: string
  required :: "string list"
  config_fields :: fields_cfg

text \<open>The hosted fields: the configuration they attached to, the errors of their setup,
  the field types that have an entry in \<^verbatim>\<open>state\<close>, and whether \<^verbatim>\<open>reset\<close> has torn them down.\<close>

record hosted_fields =
  hf_fields :: fields_cfg
  hf_errors :: "error list"
  hf_state :: "string list"
  hf_reset :: bool

text \<open>
  The collaborators that are not part of the modelled files: the identifier generator
  \<^verbatim>\<open>uuid/v4\<close> (its successive results), the validators of \<^verbatim>\<open>./validate\<close> and the fraud
  parameters. What the hosted fields find in the page changes with the page, so each call
  of \<^verbatim>\<open>configure\<close> comes with the page's answers: the integrity check of the attached
  fields, and the errors a new set of fields records.
\<close>

record env =
  uuid :: "nat \<Rightarrow> string"
  validate_cardNumber :: "jsval \<Rightarrow> bool"
  validate_expiry :: "jsval \<Rightarrow> jsval \<Rightarrow> bool"
  validate_cvv :: "jsval \<Rightarrow> bool"
  validateCardInputs :: "inputs \<Rightarrow> string list"
  fraud_params :: "inputs \<Rightarrow> jsval"

record dom =
  integrityCheck :: "hosted_fields \<Rightarrow> fields_cfg \<Rightarrow> bool"
  discover :: "fields_cfg \<Rightarrow> error list"
  field_states :: "fields_cfg \<Rightarrow> string list"

section \<open>The orchestrator's state\<close>

datatype bus_ref = ThisBus | ElementsBus

datatype body = NoBody | TokenInit string inputs | RecurlyConfig config

datatype member = MemberRecurly | MemberHostedFields

record bus =
  bus_api :: string
  recipients :: "member list"
  bus_destroyed :: bool

text \<open>The listeners the source registers on the instance, one constructor per closure.\<close>

datatype handler =
    ReportReady
  | HostedFieldsReady
  | StateChange
  | FieldSubmit
  | ReportField string
  | TokenDone nat "nat option"
  | Integrator nat

type_synonym 'h listener = "string \<times> bool \<times> 'h"

text \<open>Everything the instance does to the world outside its own fields, in order.\<close>

datatype effect =
    Emit string payload
  | Send bus_ref string body
  | Post string inputs nat "nat option"
  | CallDone nat "error option" "response option"
  | CallListener nat payload
  | SetTokenField nat jsval
  | Report string
  | HostedFieldsReset
  | HostedFieldsNew
  | BusDestroy
  | BusNew
  | FraudDestroy
  | ReporterDestroy

datatype fraud_state = FraudActive | FraudDestroyed

record recurly =
  configured :: bool
  readyState :: nat
  config :: config
  callbacks :: "handler listener list"
  bus :: "bus option"
  hostedFields :: "hosted_fields option"
  fraud :: "fraud_state option"
  reporter :: bool
  uuids_drawn :: nat
  trace :: "effect list"

definition log :: "effect \<Rightarrow> recurly \<Rightarrow> recurly" where
  "log e this = this\<lparr>trace := trace this @ [e]\<rparr>"

subsection \<open>The emitter's registrations\<close>

text \<open>
  \<^verbatim>\<open>component-emitter\<close>, which \<^verbatim>\<open>Recurly\<close> and \<^verbatim>\<open>Frame\<close> extend: the listeners of all events
  in registration order, each with its event and whether \<^verbatim>\<open>once\<close> wrapped it.
\<close>

definition on :: "string \<Rightarrow> 'h \<Rightarrow> 'h listener list \<Rightarrow> 'h listener list" where
  "on event fn cbs = cbs @ [(event, False, fn)]"

definition once :: "string \<Rightarrow> 'h \<Rightarrow> 'h listener list \<Rightarrow> 'h listener list" where
  "once event fn cbs = cbs @ [(event, True, fn)]"

definition listening :: "string \<Rightarrow> 'h listener list \<Rightarrow> 'h listener list" where
  "listening event cbs = filter (\<lambda>l. fst l = event) cbs"

section \<open>Tokenization\<close>

definition FIELDS :: "string list" where
  "FIELDS = [''first_name'', ''last_name'', ''address1'', ''address2'', ''company'',
     ''country'', ''city'', ''state'', ''postal_code'', ''phone'', ''vat_number'',
     ''fraud_session_id'', ''token'']"

text \<open>The result of \<^verbatim>\<open>normalize\<close>: the values, and the output field bound to \<^verbatim>\<open>token\<close>.\<close>

record customer_data =
  cd_values :: inputs
  cd_token_field :: "nat option"

definition validate :: "env \<Rightarrow> recurly \<Rightarrow> inputs \<Rightarrow> string list" where
  "validate E this customerData =
    (let errors0 = [];
         errors1 = (if \<not> validate_cardNumber E (customerData ''number'')
                    then errors0 @ [''number''] else errors0);
         errors2 = (if \<not> validate_expiry E (customerData ''month'') (customerData ''year'')
                    then errors1 @ [''month'', ''year''] else errors1);
         errors3 = (if \<not> truthy (customerData ''first_name'')
                    then errors2 @ [''first_name''] else errors2);
         errors4 = (if \<not> truthy (customerData ''last_name'')
                    then errors3 @ [''last_name''] else errors3);
         errors5 = (if (''cvv'' \<in> set (required (config this)) \<or> truthy (customerData ''cvv''))
                       \<and> \<not> validate_cvv E (customerData ''cvv'')
                    then errors4 @ [''cvv''] else errors4)
     in foldl (\<lambda>errors field.
                 if \<not> truthy (customerData field) \<and> field \<in> set FIELDS
                 then errors @ [field] else errors)
          errors5 (required (config this)))"

definition bus_send :: "bus_ref \<Rightarrow> string \<Rightarrow> body \<Rightarrow> recurly \<Rightarrow> recurly outcome" where
  "bus_send b event msg this =
    (case b of
       ElementsBus \<Rightarrow> Return (log (Send ElementsBus event msg) this)
     | ThisBus \<Rightarrow>
        (case bus this of
           None \<Rightarrow> Throw TypeError this
         | Some bs \<Rightarrow>
             Return (if bus_destroyed bs then this else log (Send ThisBus event msg) this)))"

definition token :: "env \<Rightarrow> recurly \<Rightarrow> customer_data \<Rightarrow> bus_ref \<Rightarrow> nat \<Rightarrow> recurly outcome" where
  "token E this customerData b done =
    (let inputs = cd_values customerData in
     if isParent (config this) then
       (case fraud this of
          None \<Rightarrow> Throw TypeError this
        | Some _ \<Rightarrow>
           (let inputs' = inputs(''fraud'' := fraud_params E inputs);
                ident = uuid E (uuids_drawn this);
                this1 = this\<lparr>uuids_drawn := Suc (uuids_drawn this)\<rparr>;
                this2 = this1\<lparr>callbacks :=
                          once (''token:done:'' @ ident)
                            (TokenDone done (cd_token_field customerData)) (callbacks this1)\<rparr>
            in bus_send b ''token:init'' (TokenInit ident inputs') this2))
     else
       (let userErrors = validate E this inputs in
        if userErrors \<noteq> [] then
          Return (log (CallDone done (Some (Validation userErrors)) None) this)
        else
          Return (log (Post ''/token'' inputs done (cd_token_field customerData)) this)))"

definition tokenDispatcher ::
    "env \<Rightarrow> recurly \<Rightarrow> bool \<Rightarrow> customer_data \<Rightarrow> arg \<Rightarrow> recurly outcome" where
  "tokenDispatcher E this elements customerData done =
    (let b = (if elements then ElementsBus else ThisBus) in
     if \<not> configured this then Throw NotConfigured this
     else case done of
       NotFunction v \<Rightarrow> Throw MissingCallback this
     | Function k \<Rightarrow>
        (case hostedFields this of
           None \<Rightarrow> (if isParent (config this) \<and> \<not> elements then Throw TypeError this
                    else token E this customerData b k)
         | Some hf \<Rightarrow>
            (if isParent (config this) \<and> \<not> elements \<and> length (hf_errors hf) > 0
             then Throw (hd (hf_errors hf)) this
             else token E this customerData b k)))"

text \<open>
  The second \<^verbatim>\<open>token\<close> of \<^verbatim>\<open>token.js\<close>, the variant without Elements: it makes the same
  checks itself, sends before it subscribes, and takes the invalid fields from
  \<^verbatim>\<open>validateCardInputs\<close>.
\<close>

definition token2 :: "env \<Rightarrow> recurly \<Rightarrow> customer_data \<Rightarrow> arg \<Rightarrow> recurly outcome" where
  "token2 E this data done =
    (let inputs = cd_values data in
     if \<not> configured this then Throw NotConfigured this
     else case done of
       NotFunction v \<Rightarrow> Throw MissingCallback this
     | Function k \<Rightarrow>
        (if isParent (config this) then
           (case fraud this of
              None \<Rightarrow> Throw TypeError this
            | Some _ \<Rightarrow>
               (let inputs' = inputs(''fraud'' := fraud_params E inputs) in
                case hostedFields this of
                  None \<Rightarrow> Throw TypeError this
                | Some hf \<Rightarrow>
                   (if length (hf_errors hf) > 0 then Throw (hd (hf_errors hf)) this
                    else
                      (let ident = uuid E (uuids_drawn this);
                           this1 = this\<lparr>uuids_drawn := Suc (uuids_drawn this)\<rparr>
                       in case bus_send ThisBus ''token:init'' (TokenInit ident inputs') this1 of
                            Throw e this2 \<Rightarrow> Throw e this2
                          | Return this2 \<Rightarrow>
                              Return (this2\<lparr>callbacks :=
                                once (''token:done:'' @ ident)
                                  (TokenDone k (cd_token_field data)) (callbacks this2)\<rparr>)))))
         else
           (let userErrors = validateCardInputs E inputs in
            if userErrors \<noteq> [] then
              Return (log (CallDone k (Some (Validation userErrors)) None) this)
            else
              Return (log (Post ''/token'' inputs k (cd_token_field data)) this))))"

section \<open>Emitting events\<close>

text \<open>
  \<^verbatim>\<open>emit\<close> calls the listeners of a copy of the event's array one after the other; an
  exception of a listener ends the call. A listener may emit in turn, and nothing in the
  emitter bounds that nesting, so the model counts it: \<open>None\<close> is a nesting deeper than
  the given number.
\<close>

fun run_listeners ::
    "('l \<Rightarrow> 's \<Rightarrow> 's outcome option) \<Rightarrow> 'l list \<Rightarrow> 's \<Rightarrow> 's outcome option" where
  "run_listeners f [] s = Some (Return s)"
| "run_listeners f (l # ls) s =
     (case f l s of
        Some (Return s') \<Rightarrow> run_listeners f ls s'
      | Some (Throw e s') \<Rightarrow> Some (Throw e s')
      | None \<Rightarrow> None)"

definition andThen ::
    "'s outcome option \<Rightarrow> ('s \<Rightarrow> 's outcome option) \<Rightarrow> 's outcome option" where
  "andThen r f = (case r of Some (Return s) \<Rightarrow> f s | _ \<Rightarrow> r)"

definition report :: "string \<Rightarrow> recurly \<Rightarrow> recurly" where
  "report name this = (if \<not> reporter this then this else log (Report name) this)"

definition complete ::
    "nat \<Rightarrow> nat option \<Rightarrow> error option \<Rightarrow> response option \<Rightarrow> recurly \<Rightarrow> recurly outcome" where
  "complete done token_field err res this =
    (case err of
       Some e \<Rightarrow> Return (log (CallDone done (Some e) None) this)
     | None \<Rightarrow>
        (case token_field of
           None \<Rightarrow> Return (log (CallDone done None res) this)
         | Some f \<Rightarrow>
            (case res of
               None \<Rightarrow> Throw TypeError this
             | Some r \<Rightarrow>
                 Return (log (CallDone done None res)
                   (if truthy (res_id r) then log (SetTokenField f (res_id r)) this
                    else this)))))"

definition run_handler ::
    "(string \<Rightarrow> payload \<Rightarrow> recurly \<Rightarrow> recurly outcome option) \<Rightarrow> payload \<Rightarrow> handler
      \<Rightarrow> recurly \<Rightarrow> recurly outcome option" where
  "run_handler emit' p h this =
    (case h of
       ReportReady \<Rightarrow> Some (Return (report ''ready'' this))
     | HostedFieldsReady \<Rightarrow> emit' ''ready'' PUndefined (this\<lparr>readyState := 2\<rparr>)
     | StateChange \<Rightarrow> emit' ''change'' (PFields p) this
     | FieldSubmit \<Rightarrow> emit' ''field:submit'' PUndefined this
     | ReportField eventName \<Rightarrow>
        (case p of
           PType type \<Rightarrow>
             (case hostedFields this of
                None \<Rightarrow> Some (Throw TypeError this)
              | Some hf \<Rightarrow>
                  (if type \<in> set (hf_state hf)
                   then Some (Return (report (''hosted-field:'' @ eventName) this))
                   else Some (Throw TypeError this)))
         | _ \<Rightarrow> Some (Throw TypeError this))
     | TokenDone done token_field \<Rightarrow>
        (case p of
           PUndefined \<Rightarrow> Some (Throw TypeError this)
         | PObj err tok \<Rightarrow> Some (complete done token_field err tok this)
         | PType type \<Rightarrow> Some (complete done token_field None None this)
         | PFields b \<Rightarrow> Some (complete done token_field None None this))
     | Integrator k \<Rightarrow> Some (Return (log (CallListener k p) this)))"

text \<open>The wrapper of \<^verbatim>\<open>once\<close> removes itself, then calls the function it wraps.\<close>

definition invoke ::
    "(string \<Rightarrow> payload \<Rightarrow> recurly \<Rightarrow> recurly outcome option) \<Rightarrow> payload \<Rightarrow> handler listener
      \<Rightarrow> recurly \<Rightarrow> recurly outcome option" where
  "invoke emit' p l this =
    run_handler emit' p (snd (snd l))
      (if fst (snd l) then this\<lparr>callbacks := remove1 l (callbacks this)\<rparr> else this)"

primrec emit :: "nat \<Rightarrow> string \<Rightarrow> payload \<Rightarrow> recurly \<Rightarrow> recurly outcome option" where
  "emit 0 event p this = None"
| "emit (Suc n) event p this =
     run_listeners (invoke (emit n) p) (listening event (callbacks this))
       (log (Emit event p) this)"

section \<open>The orchestrator's lifecycle\<close>

definition ready :: "nat \<Rightarrow> recurly \<Rightarrow> recurly" where
  "ready done this =
    (if readyState this > 1 then log (CallListener done PUndefined) this
     else this\<lparr>callbacks := once ''ready'' (Integrator done) (callbacks this)\<rparr>)"

text \<open>
  The options of \<^verbatim>\<open>configure\<close> after \<^verbatim>\<open>normalizeOptions\<close>: an empty string is a string
  property that is absent, \<open>None\<close> a property that is not in the object. Of a field's
  configuration the model keeps the selector; styles and the fraud settings are left out.
\<close>

record options =
  o_publicKey :: string
  o_api :: string
  o_currency :: string
  o_cors :: "bool option"
  o_parent :: "bool option"
  o_fields :: "fields_cfg option"
  o_required :: "string list option"
  o_parentVersion :: string

fun assign :: "string \<Rightarrow> string \<Rightarrow> fields_cfg \<Rightarrow> fields_cfg" where
  "assign k v [] = [(k, v)]"
| "assign k v ((k', v') # rest) =
     (if k' = k then (k, v) # rest else (k', v') # assign k v rest)"

text \<open>\<^verbatim>\<open>deepAssign\<close> of \<^verbatim>\<open>util/deep-assign\<close>, on selectors: every key of the source is
  written into the target.\<close>

fun deepAssign :: "fields_cfg \<Rightarrow> fields_cfg \<Rightarrow> fields_cfg" where
  "deepAssign target [] = target"
| "deepAssign target ((k, v) # rest) = deepAssign (assign k v target) rest"

definition DEFAULTS :: config where
  "DEFAULTS = \<lparr> publicKey = [], api = ''https://api.recurly.com/js/v1'',
     currency = ''USD'', cors = True, isParent = True, parentVersion = ''version'',
     required = [],
     config_fields = [(''number'', ''[data-recurly=number]''),
       (''month'', ''[data-recurly=month]''), (''year'', ''[data-recurly=year]''),
       (''cvv'', ''[data-recurly=cvv]''), (''card'', ''[data-recurly=card]'')] \<rparr>"

text \<open>
  Modelled from the spec: the bus (\<^verbatim>\<open>./recurly/bus\<close>) is fire-and-forget, \<^verbatim>\<open>send\<close> after
  \<^verbatim>\<open>destroy\<close> is a no-op and \<^verbatim>\<open>destroy\<close> may be called again. Delivery to the members is
  a later \<^verbatim>\<open>emit\<close> on each of them.
\<close>

definition bus_destroy :: "recurly \<Rightarrow> recurly" where
  "bus_destroy this =
    (case bus this of
       None \<Rightarrow> this
     | Some b \<Rightarrow>
        (if bus_destroyed b then this
         else log BusDestroy (this\<lparr>bus := Some (b\<lparr>recipients := [], bus_destroyed := True\<rparr>)\<rparr>)))"

definition bus_add :: "member \<Rightarrow> recurly \<Rightarrow> recurly" where
  "bus_add m this =
    (case bus this of
       None \<Rightarrow> this
     | Some b \<Rightarrow> this\<lparr>bus := Some (b\<lparr>recipients := remove1 m (recipients b) @ [m]\<rparr>)\<rparr>)"

text \<open>
  Modelled from the spec: the hosted fields (\<^verbatim>\<open>./recurly/hosted-fields\<close>). A new set
  attaches to the current field configuration, records the errors of its setup and keeps
  a state for each field it found; \<^verbatim>\<open>reset\<close> tears the set down.
\<close>

definition newHostedFields :: "dom \<Rightarrow> recurly \<Rightarrow> hosted_fields" where
  "newHostedFields D this =
    \<lparr> hf_fields = config_fields (config this),
      hf_errors = discover D (config_fields (config this)),
      hf_state = field_states D (config_fields (config this)),
      hf_reset = False \<rparr>"

text \<open>The first lines of \<^verbatim>\<open>parent\<close>: whether to reset, and the reset.\<close>

definition needs_reset :: "dom \<Rightarrow> recurly \<Rightarrow> bool" where
  "needs_reset D this =
    (case hostedFields this of
       None \<Rightarrow> False
     | Some hf \<Rightarrow> readyState this > 1 \<and> \<not> integrityCheck D hf (config_fields (config this)))"

definition parent_reset :: "dom \<Rightarrow> recurly \<Rightarrow> recurly" where
  "parent_reset D this =
    (if needs_reset D this then
       log HostedFieldsReset
         (this\<lparr>readyState := 0,
               hostedFields := map_option (\<lambda>hf. hf\<lparr>hf_reset := True\<rparr>) (hostedFields this)\<rparr>)
     else this)"

text \<open>The rest of \<^verbatim>\<open>parent\<close>, from \<^verbatim>\<open>if (this.readyState > 0)\<close> on.\<close>

definition parent_init :: "nat \<Rightarrow> dom \<Rightarrow> bool \<Rightarrow> recurly \<Rightarrow> recurly outcome option" where
  "parent_init n D reset this =
    (if readyState this > 0 then
       Some (bus_send ThisBus ''hostedFields:configure'' (RecurlyConfig (config this)) this)
     else
       (let this1 = (if fraud this = None then this\<lparr>fraud := Some FraudActive\<rparr> else this);
            this2 = bus_destroy this1;
            this3 = log BusNew (this2\<lparr>bus := Some \<lparr> bus_api = api (config this2),
                       recipients = [], bus_destroyed = False \<rparr>\<rparr>);
            this4 = bus_add MemberRecurly this3;
            this5 = (if hostedFields this4 = None \<or> reset
                     then log HostedFieldsNew
                            (this4\<lparr>hostedFields := Some (newHostedFields D this4)\<rparr>)
                     else this4)
        in case hostedFields this5 of
             None \<Rightarrow> Some (Throw TypeError this5)
           | Some hf \<Rightarrow>
              (if length (hf_errors hf) = 0 then
                 (let this6 = bus_add MemberHostedFields this5;
                      this7 = this6\<lparr>callbacks :=
                                once ''hostedFields:ready'' HostedFieldsReady (callbacks this6)\<rparr>;
                      this8 = this7\<lparr>callbacks :=
                                on ''hostedFields:state:change'' StateChange (callbacks this7)\<rparr>;
                      this9 = this8\<lparr>callbacks :=
                                on ''hostedField:submit'' FieldSubmit (callbacks this8)\<rparr>
                  in Some (Return (this9\<lparr>readyState := 1\<rparr>)))
               else emit n ''ready'' PUndefined (this5\<lparr>readyState := 3\<rparr>))))"

definition parent :: "nat \<Rightarrow> dom \<Rightarrow> recurly \<Rightarrow> recurly outcome option" where
  "parent n D this = parent_init n D (needs_reset D this) (parent_reset D this)"

definition merge_options :: "options \<Rightarrow> config \<Rightarrow> config" where
  "merge_options opts c =
    (let c1 = (if o_publicKey opts \<noteq> [] then c\<lparr>publicKey := o_publicKey opts\<rparr> else c);
         c2 = (if o_api opts \<noteq> [] then c1\<lparr>api := o_api opts\<rparr> else c1);
         c3 = (if o_currency opts \<noteq> [] then c2\<lparr>currency := o_currency opts\<rparr> else c2);
         c4 = (case o_cors opts of Some v \<Rightarrow> c3\<lparr>cors := v\<rparr> | None \<Rightarrow> c3);
         c5 = (case o_parent opts of Some v \<Rightarrow> c4\<lparr>isParent := v\<rparr> | None \<Rightarrow> c4);
         c6 = (case o_fields opts of
                 Some f \<Rightarrow> c5\<lparr>config_fields := deepAssign (config_fields c5) f\<rparr>
               | None \<Rightarrow> c5)
     in c6\<lparr>required := (case o_required opts of Some r \<Rightarrow> r | None \<Rightarrow> required c6)\<rparr>)"

definition configure :: "nat \<Rightarrow> dom \<Rightarrow> options \<Rightarrow> recurly \<Rightarrow> recurly outcome option" where
  "configure n D opts this =
    (if o_publicKey opts = [] \<and> publicKey (config this) = [] then
       Some (Throw ConfigMissingPublicKey this)
     else
       (let this1 = this\<lparr>config := merge_options opts (config this)\<rparr> in
        andThen
          (if isParent (config this1) then parent n D this1
           else Some (Return
                  (if o_parentVersion opts \<noteq> []
                   then this1\<lparr>config := (config this1)\<lparr>parentVersion := o_parentVersion opts\<rparr>\<rparr>
                   else this1)))
          (\<lambda>this2.
             if \<not> configured this2 then
               andThen (emit n ''configured'' PUndefined (this2\<lparr>configured := True\<rparr>))
                 (\<lambda>this3. Some (Return (report ''configured'' this3)))
             else Some (Return this2))))"

definition constructor :: "nat \<Rightarrow> dom \<Rightarrow> options option \<Rightarrow> recurly outcome option" where
  "constructor n D opts =
    (let this = \<lparr> configured = False, readyState = 0, config = DEFAULTS, callbacks = [],
                  bus = None, hostedFields = None, fraud = None, reporter = False,
                  uuids_drawn = 1, trace = [] \<rparr>
     in andThen (case opts of None \<Rightarrow> Some (Return this) | Some os \<Rightarrow> configure n D os this)
          (\<lambda>this1.
             (let this2 = this1\<lparr>reporter := True\<rparr>;
                  this3 = this2\<lparr>callbacks := once ''ready'' ReportReady (callbacks this2)\<rparr>;
                  this4 = (if isParent (config this3)
                           then this3\<lparr>callbacks :=
                                  on ''hostedField:blur'' (ReportField ''blur'')
                                    (on ''hostedField:focus'' (ReportField ''focus'')
                                       (callbacks this3))\<rparr>
                           else this3)
              in Some (Return this4))))"

definition destroy :: "recurly \<Rightarrow> recurly" where
  "destroy this =
    (let this1 = this\<lparr>callbacks := []\<rparr>;
         this2 = (case bus this1 of
                    None \<Rightarrow> this1
                  | Some b \<Rightarrow>
                      bus_destroy
                        (if bus_destroyed b then this1
                         else log (Send ThisBus ''destroy'' NoBody) this1));
         this3 = (case fraud this2 of
                    None \<Rightarrow> this2
                  | Some FraudDestroyed \<Rightarrow> this2
                  | Some FraudActive \<Rightarrow> log FraudDestroy (this2\<lparr>fraud := Some FraudDestroyed\<rparr>))
     in if reporter this3 then log ReporterDestroy (this3\<lparr>reporter := False\<rparr>) else this3)"

subsection \<open>Sequences of operations on one instance\<close>

text \<open>
  What happens to an instance after its construction: the integrator's calls, the events
  the bus delivers to it, and the replies of the API to a posted request. An exception
  leaves the instance as it was when it was raised.
\<close>

datatype op =
    Configure dom options
  | Ready nat
  | Deliver string payload
  | Tokenize bool customer_data arg
  | Respond nat "nat option" "error option" "response option"
  | Destroy

fun state_of :: "'s outcome \<Rightarrow> 's" where
  "state_of (Return s) = s"
| "state_of (Throw e s) = s"

definition step :: "nat \<Rightarrow> env \<Rightarrow> op \<Rightarrow> recurly \<Rightarrow> recurly option" where
  "step n E operation this =
    (case operation of
       Configure D opts \<Rightarrow> map_option state_of (configure n D opts this)
     | Ready done \<Rightarrow> Some (ready done this)
     | Deliver event p \<Rightarrow> map_option state_of (emit n event p this)
     | Tokenize elements customerData done \<Rightarrow>
         Some (state_of (tokenDispatcher E this elements customerData done))
     | Respond done token_field err res \<Rightarrow>
         Some (state_of (complete done token_field err res this))
     | Destroy \<Rightarrow> Some (destroy this))"

fun run :: "nat \<Rightarrow> env \<Rightarrow> op list \<Rightarrow> recurly \<Rightarrow> recurly option" where
  "run n E [] this = Some this"
| "run n E (operation # rest) this =
     (case step n E operation this of None \<Rightarrow> None | Some this' \<Rightarrow> run n E rest this')"

section \<open>The frame transaction\<close>

text \<open>
  What a frame's events carry: nothing, the result object of the popup with its optional
  \<^verbatim>\<open>error\<close> property, or the error itself.
\<close>

datatype fpayload = FNone | FRes "error option" | FErr error

datatype fhandler = Completion | BoundDestroy | Owner nat

datatype feffect = FEmit string fpayload | FCallListener nat fpayload

text \<open>
  The frame with the part of the browser it acts on: the popup's \<^verbatim>\<open>closed\<close> flag, the relay
  elements that are children of the document's body, and the running interval of the
  close listener with its period.
\<close>

record frame =
  fr_callbacks :: "fhandler listener list"
  fr_name :: string
  fr_window :: "nat option"
  fr_relay :: "nat option"
  popup_closed :: bool
  body_children :: "nat list"
  interval :: "nat option"
  fr_trace :: "feffect list"

definition flog :: "feffect \<Rightarrow> frame \<Rightarrow> frame" where
  "flog e fr = fr\<lparr>fr_trace := fr_trace fr @ [e]\<rparr>"

text \<open>\<^verbatim>\<open>removeChild\<close> raises \<^verbatim>\<open>NotFoundError\<close> for a node that is not a child.\<close>

definition removeRelay :: "frame \<Rightarrow> frame outcome" where
  "removeRelay fr =
    (case fr_relay fr of
       None \<Rightarrow> Return fr
     | Some r \<Rightarrow>
        (if r \<in> set (body_children fr)
         then Return (fr\<lparr>body_children := remove1 r (body_children fr)\<rparr>)
         else Throw NotFoundError fr))"

definition Frame_destroy :: "frame \<Rightarrow> frame outcome" where
  "Frame_destroy fr =
    (let fr1 = fr\<lparr>fr_callbacks := []\<rparr>;
         fr2 = (case fr_window fr1 of None \<Rightarrow> fr1 | Some w \<Rightarrow> fr1\<lparr>popup_closed := True\<rparr>)
     in removeRelay fr2)"

definition Frame_run_handler ::
    "(string \<Rightarrow> fpayload \<Rightarrow> frame \<Rightarrow> frame outcome option) \<Rightarrow> fpayload \<Rightarrow> fhandler
      \<Rightarrow> frame \<Rightarrow> frame outcome option" where
  "Frame_run_handler emit' res h fr =
    (case h of
       Completion \<Rightarrow>
         andThen (Some (removeRelay fr))
           (\<lambda>fr1. case res of
                    FNone \<Rightarrow> Some (Throw TypeError fr1)
                  | FRes (Some e) \<Rightarrow> emit' ''error'' (FErr e) fr1
                  | FRes None \<Rightarrow> emit' ''done'' res fr1
                  | FErr e \<Rightarrow> emit' ''done'' res fr1)
     | BoundDestroy \<Rightarrow> Some (Frame_destroy fr)
     | Owner k \<Rightarrow> Some (Return (flog (FCallListener k res) fr)))"

definition Frame_invoke ::
    "(string \<Rightarrow> fpayload \<Rightarrow> frame \<Rightarrow> frame outcome option) \<Rightarrow> fpayload \<Rightarrow> fhandler listener
      \<Rightarrow> frame \<Rightarrow> frame outcome option" where
  "Frame_invoke emit' p l fr =
    Frame_run_handler emit' p (snd (snd l))
      (if fst (snd l) then fr\<lparr>fr_callbacks := remove1 l (fr_callbacks fr)\<rparr> else fr)"

primrec Frame_emit :: "nat \<Rightarrow> string \<Rightarrow> fpayload \<Rightarrow> frame \<Rightarrow> frame outcome option" where
  "Frame_emit 0 event p fr = None"
| "Frame_emit (Suc n) event p fr =
     run_listeners (Frame_invoke (Frame_emit n) p) (listening event (fr_callbacks fr))
       (flog (FEmit event p) fr)"

definition prepare :: "frame \<Rightarrow> frame" where
  "prepare fr =
    (let fr1 = fr\<lparr>fr_callbacks := once (fr_name fr) Completion (fr_callbacks fr)\<rparr>
     in fr1\<lparr>fr_callbacks := once ''destroy'' BoundDestroy (fr_callbacks fr1)\<rparr>)"

definition bindWindowCloseListener :: "frame \<Rightarrow> frame" where
  "bindWindowCloseListener fr = fr\<lparr>interval := Some 1000\<rparr>"

text \<open>\<^verbatim>\<open>window.open\<close> gives a window, or \<^verbatim>\<open>null\<close> when the browser blocks the popup.\<close>

definition create :: "bool \<Rightarrow> frame \<Rightarrow> frame" where
  "create opened fr =
    bindWindowCloseListener
      (fr\<lparr>fr_window := (if opened then Some 0 else None), popup_closed := False\<rparr>)"

text \<open>With a relay, \<^verbatim>\<open>create\<close> runs later, when the relay has loaded.\<close>

definition listen :: "bool \<Rightarrow> bool \<Rightarrow> frame \<Rightarrow> frame" where
  "listen documentMode opened fr =
    (if documentMode then fr\<lparr>fr_relay := Some 0, body_children := body_children fr @ [0]\<rparr>
     else create opened fr)"

definition Frame_constructor :: "string \<Rightarrow> bool \<Rightarrow> bool \<Rightarrow> frame" where
  "Frame_constructor ident documentMode opened =
    listen documentMode opened
      (prepare \<lparr> fr_callbacks = [], fr_name = ''recurly-frame-'' @ ident, fr_window = None,
                 fr_relay = None, popup_closed = False, body_children = [], interval = None,
                 fr_trace = [] \<rparr>)"


text \<open>What \<^verbatim>\<open>destroy\<close> leaves: no listener, no open popup, no relay in the document.\<close>

definition destroyed :: "frame \<Rightarrow> bool" where
  "destroyed fr =
    (fr_callbacks fr = []
     \<and> (case fr_window fr of None \<Rightarrow> True | Some w \<Rightarrow> popup_closed fr)
     \<and> (case fr_relay fr of None \<Rightarrow> True | Some r \<Rightarrow> r \<notin> set (body_children fr)))"

section \<open>Vocabulary of the properties\<close>

text \<open>
  When \<^verbatim>\<open>validate\<close> reports a field: the card number, the expiry (both of its fields), a
  missing first or last name, the cvv when it is required or given, and a missing
  required field that is one of \<^verbatim>\<open>FIELDS\<close>.
\<close>

definition offending :: "env \<Rightarrow> recurly \<Rightarrow> inputs \<Rightarrow> string \<Rightarrow> bool" where
  "offending E this customerData f =
    ((f = ''number'' \<and> \<not> validate_cardNumber E (customerData ''number''))
     \<or> ((f = ''month'' \<or> f = ''year'')
         \<and> \<not> validate_expiry E (customerData ''month'') (customerData ''year''))
     \<or> (f = ''first_name'' \<and> \<not> truthy (customerData ''first_name''))
     \<or> (f = ''last_name'' \<and> \<not> truthy (customerData ''last_name''))
     \<or> (f = ''cvv'' \<and> (''cvv'' \<in> set (required (config this)) \<or> truthy (customerData ''cvv''))
         \<and> \<not> validate_cvv E (customerData ''cvv''))
     \<or> (f \<in> set (required (config this)) \<and> f \<in> set FIELDS \<and> \<not> truthy (customerData f)))"

definition is_post :: "effect \<Rightarrow> bool" where
  "is_post e = (case e of Post r i d t \<Rightarrow> True | _ \<Rightarrow> False)"

definition is_call :: "nat \<Rightarrow> effect \<Rightarrow> bool" where
  "is_call k e = (case e of CallDone j err res \<Rightarrow> j = k | _ \<Rightarrow> False)"

text \<open>How often the integrator's function \<open>k\<close> has been called as a completion.\<close>

definition calls :: "nat \<Rightarrow> recurly \<Rightarrow> nat" where
  "calls k this = length (filter (is_call k) (trace this))"

text \<open>How often an event has been emitted.\<close>

definition emitted :: "string \<Rightarrow> recurly \<Rightarrow> nat" where
  "emitted event this =
     length (filter (\<lambda>e. case e of Emit ev p \<Rightarrow> ev = event | _ \<Rightarrow> False) (trace this))"




subsection \<open>Concrete instances\<close>

definition env0 :: env where
  "env0 = \<lparr> uuid = (\<lambda>n. replicate (Suc n) CHR ''a''),
             validate_cardNumber = (\<lambda>v. v = JStr ''4111111111111111''),
             validate_expiry = (\<lambda>m y. m = JStr ''12'' \<and> y = JStr ''2030''),
             validate_cvv = (\<lambda>v. v = JStr ''123''),
             validateCardInputs = (\<lambda>i. []),
             fraud_params = (\<lambda>i. JObj ''fraud'') \<rparr>"

text \<open>Modelled from the spec: the integrity check of \<^verbatim>\<open>./recurly/hosted-fields\<close> compares
  the attached field configuration with the new one.\<close>

definition dom0 :: dom where
  "dom0 = \<lparr> integrityCheck = (\<lambda>hf f. hf_fields hf = f), discover = (\<lambda>f. []),
            field_states = (\<lambda>f. [''number'', ''month'', ''year'', ''cvv'']) \<rparr>"

definition dom_err :: dom where
  "dom_err = \<lparr> integrityCheck = (\<lambda>hf f. hf_fields hf = f),
               discover = (\<lambda>f. [HostedFieldError ''missing-hosted-field-target'']),
               field_states = (\<lambda>f. []) \<rparr>"

definition opts0 :: options where
  "opts0 = \<lparr> o_publicKey = ''pk'', o_api = [], o_currency = [], o_cors = None,
              o_parent = None, o_fields = Some [(''number'', ''#n'')], o_required = None,
              o_parentVersion = [] \<rparr>"

definition config0 :: config where
  "config0 = \<lparr> publicKey = ''pk'', api = ''https://api.recurly.com/js/v1'',
     currency = ''USD'', cors = True, isParent = True, parentVersion = ''version'',
     required = [],
     config_fields = [(''number'', ''#n''), (''month'', ''[data-recurly=month]''),
       (''year'', ''[data-recurly=year]''), (''cvv'', ''[data-recurly=cvv]''),
       (''card'', ''[data-recurly=card]'')] \<rparr>"

text \<open>The instance \<^verbatim>\<open>new Recurly(opts0)\<close> on a page whose fields attach.\<close>

definition parent0 :: recurly where
  "parent0 = \<lparr> configured = True, readyState = 1, config = config0,
      callbacks = [(''hostedFields:ready'', True, HostedFieldsReady),
        (''hostedFields:state:change'', False, StateChange),
        (''hostedField:submit'', False, FieldSubmit),
        (''ready'', True, ReportReady),
        (''hostedField:focus'', False, ReportField ''focus''),
        (''hostedField:blur'', False, ReportField ''blur'')],
      bus = Some \<lparr> bus_api = ''https://api.recurly.com/js/v1'',
               recipients = [MemberRecurly, MemberHostedFields], bus_destroyed = False \<rparr>,
      hostedFields = Some \<lparr> hf_fields = config_fields config0, hf_errors = [],
               hf_state = [''number'', ''month'', ''year'', ''cvv''], hf_reset = False \<rparr>,
      fraud = Some FraudActive, reporter = True, uuids_drawn = 1,
      trace = [BusNew, HostedFieldsNew, Emit ''configured'' PUndefined] \<rparr>"

text \<open>The same on a page whose fields do not attach.\<close>

definition parent_err :: recurly where
  "parent_err = \<lparr> configured = True, readyState = 3, config = config0,
      callbacks = [(''ready'', True, ReportReady),
        (''hostedField:focus'', False, ReportField ''focus''),
        (''hostedField:blur'', False, ReportField ''blur'')],
      bus = Some \<lparr> bus_api = ''https://api.recurly.com/js/v1'',
               recipients = [MemberRecurly], bus_destroyed = False \<rparr>,
      hostedFields = Some \<lparr> hf_fields = config_fields config0,
               hf_errors = [HostedFieldError ''missing-hosted-field-target''],
               hf_state = [], hf_reset = False \<rparr>,
      fraud = Some FraudActive, reporter = True, uuids_drawn = 1,
      trace = [BusNew, HostedFieldsNew, Emit ''ready'' PUndefined,
               Emit ''configured'' PUndefined] \<rparr>"

text \<open>An instance that is not a parent and requires a field the API does not know.\<close>

definition direct0 :: recurly where
  "direct0 = \<lparr> configured = True, readyState = 0,
      config = config0\<lparr>isParent := False, required := [''email'']\<rparr>,
      callbacks = [(''ready'', True, ReportReady)], bus = None, hostedFields = None,
      fraud = None, reporter = True, uuids_drawn = 1, trace = [] \<rparr>"

text \<open>An instance before its first configuration.\<close>

definition fresh0 :: recurly where
  "fresh0 = \<lparr> configured = False, readyState = 0, config = DEFAULTS,
      callbacks = [(''ready'', True, ReportReady),
        (''hostedField:focus'', False, ReportField ''focus''),
        (''hostedField:blur'', False, ReportField ''blur'')],
      bus = None, hostedFields = None, fraud = None, reporter = True, uuids_drawn = 1,
      trace = [] \<rparr>"

text \<open>A valid card without a first name, and the same with a month that is none.\<close>

definition card0 :: inputs where
  "card0 = (\<lambda>k. JUndefined)(''number'' := JStr ''4111111111111111'', ''month'' := JStr ''12'',
     ''year'' := JStr ''2030'', ''last_name'' := JStr ''Lovelace'')"

definition card1 :: inputs where
  "card1 = card0(''month'' := JStr ''13'')"

definition data0 :: customer_data where
  "data0 = \<lparr> cd_values = card0, cd_token_field = Some 7 \<rparr>"


subsection \<open>Frames\<close>

definition is_owner :: "fhandler listener \<Rightarrow> bool" where
  "is_owner l = (case snd (snd l) of Owner k \<Rightarrow> True | _ \<Rightarrow> False)"

text \<open>The events a frame has emitted, in order.\<close>

definition emissions :: "frame \<Rightarrow> feffect list" where
  "emissions fr =
     filter (\<lambda>e. case e of FEmit ev p \<Rightarrow> True | _ \<Rightarrow> False) (fr_trace fr)"

text \<open>What a run of listeners of the owner leaves as it is: everything but the trace
  of their calls and their own one-shot registrations.\<close>

definition same_frame :: "frame \<Rightarrow> frame \<Rightarrow> bool" where
  "same_frame fr fr' =
    (fr_name fr' = fr_name fr \<and> fr_window fr' = fr_window fr \<and> fr_relay fr' = fr_relay fr
     \<and> popup_closed fr' = popup_closed fr \<and> body_children fr' = body_children fr
     \<and> interval fr' = interval fr
     \<and> emissions fr' = emissions fr
     \<and> (\<forall>l. \<not> is_owner l \<longrightarrow> l \<in> set (fr_callbacks fr') \<longleftrightarrow> l \<in> set (fr_callbacks fr))
     \<and> (\<forall>l. is_owner l \<longrightarrow> l \<in> set (fr_callbacks fr') \<longrightarrow> l \<in> set (fr_callbacks fr)))"

text \<open>
  A frame that waits for its popup: the one-shot listener of \<^verbatim>\<open>prepare\<close> is the only one on
  the completion event, the listeners on \<open>done\<close>, \<open>error\<close> and \<open>close\<close> are the owner's,
  and the relay, if there is one, is in the document.
\<close>

definition awaiting :: "frame \<Rightarrow> bool" where
  "awaiting fr =
    (listening (fr_name fr) (fr_callbacks fr) = [(fr_name fr, True, Completion)]
     \<and> (\<forall>l \<in> set (fr_callbacks fr).
           fst l = ''done'' \<or> fst l = ''error'' \<or> fst l = ''close'' \<longrightarrow> is_owner l)
     \<and> (case fr_relay fr of
           None \<Rightarrow> True
         | Some r \<Rightarrow> r \<in> set (body_children fr) \<and> distinct (body_children fr)))"

text \<open>A frame without relay whose popup is open, with a listener of the owner on each of
  \<open>done\<close>, \<open>error\<close> and \<open>close\<close>; the same after its completion with a result; the same
  once the user has closed the popup, and after the next run of the interval.\<close>

definition frame0 :: frame where
  "frame0 = \<lparr> fr_callbacks = [(''recurly-frame-abc'', True, Completion),
       (''destroy'', True, BoundDestroy), (''done'', False, Owner 1),
       (''error'', False, Owner 2), (''close'', False, Owner 3)],
     fr_name = ''recurly-frame-abc'', fr_window = Some 0, fr_relay = None,
     popup_closed = False, body_children = [], interval = Some 1000, fr_trace = [] \<rparr>"

definition completed0 :: frame where
  "completed0 = frame0\<lparr> fr_callbacks := [(''destroy'', True, BoundDestroy),
       (''done'', False, Owner 1), (''error'', False, Owner 2), (''close'', False, Owner 3)],
     fr_trace := [FEmit ''recurly-frame-abc'' (FRes None), FEmit ''done'' (FRes None),
       FCallListener 1 (FRes None)] \<rparr>"



text \<open>A frame with a relay, once the relay has loaded and the popup is open, and the same
  after \<^verbatim>\<open>destroy\<close>.\<close>

definition relayed0 :: frame where
  "relayed0 = create True (Frame_constructor ''abc'' True True)"

definition relayed_destroyed0 :: frame where
  "relayed_destroyed0 = \<lparr> fr_callbacks = [], fr_name = ''recurly-frame-abc'',
     fr_window = Some 0, fr_relay = Some 0, popup_closed = True, body_children = [],
     interval = Some 1000, fr_trace = [] \<rparr>"

section \<open>Local validation\<close>

lemma foldl_push:
  "foldl (\<lambda>errors field. if P field then errors @ [field] else errors) acc xs = acc @ filter P xs"
  by (induction xs arbitrary: acc) auto

lemma validate_append:
  "validate E this customerData =
     (if \<not> validate_cardNumber E (customerData ''number'') then [''number''] else [])
     @ (if \<not> validate_expiry E (customerData ''month'') (customerData ''year'')
        then [''month'', ''year''] else [])
     @ (if \<not> truthy (customerData ''first_name'') then [''first_name''] else [])
     @ (if \<not> truthy (customerData ''last_name'') then [''last_name''] else [])
     @ (if (''cvv'' \<in> set (required (config this)) \<or> truthy (customerData ''cvv''))
           \<and> \<not> validate_cvv E (customerData ''cvv'') then [''cvv''] else [])
     @ filter (\<lambda>field. \<not> truthy (customerData field) \<and> field \<in> set FIELDS)
         (required (config this))"
  unfolding validate_def Let_def foldl_push by simp

lemma set_validate: "set (validate E this customerData) = {f. offending E this customerData f}"
  unfolding validate_append offending_def by auto

lemma month_year_not_FIELDS: "''month'' \<notin> set FIELDS" "''year'' \<notin> set FIELDS"
  by (simp_all add: FIELDS_def)

lemma direct0_facts:
  "configured direct0" "hostedFields direct0 = None" "\<not> isParent (config direct0)"
  "required (config direct0) = [''email'']"
  by (simp_all add: direct0_def config0_def)

lemma validate_direct0: "validate env0 direct0 card0 = [''first_name'']"
  by (simp add: validate_append env0_def direct0_facts card0_def FIELDS_def)

text \<open>
  C10. Whenever the expiry check fails, \<^verbatim>\<open>validate\<close> appends \<open>month\<close> and \<open>year\<close>, one
  after the other, whichever of the two inputs is at fault; and no other check names
  either of them, so each is in the list exactly when the expiry check fails, and the
  two are always there together.
\<close>

theorem validate_month_year_together:
  "(\<not> validate_expiry E (customerData ''month'') (customerData ''year'') \<longrightarrow>
      (\<exists>before after. validate E this customerData = before @ [''month'', ''year''] @ after))
   \<and> (''month'' \<in> set (validate E this customerData)
        \<longleftrightarrow> \<not> validate_expiry E (customerData ''month'') (customerData ''year''))
   \<and> (''year'' \<in> set (validate E this customerData)
        \<longleftrightarrow> \<not> validate_expiry E (customerData ''month'') (customerData ''year''))"
proof (intro conjI impI)
  assume bad: "\<not> validate_expiry E (customerData ''month'') (customerData ''year'')"
  let ?before = "if \<not> validate_cardNumber E (customerData ''number'') then [''number''] else []"
  let ?after = "(if \<not> truthy (customerData ''first_name'') then [''first_name''] else [])
     @ (if \<not> truthy (customerData ''last_name'') then [''last_name''] else [])
     @ (if (''cvv'' \<in> set (required (config this)) \<or> truthy (customerData ''cvv''))
           \<and> \<not> validate_cvv E (customerData ''cvv'') then [''cvv''] else [])
     @ filter (\<lambda>field. \<not> truthy (customerData field) \<and> field \<in> set FIELDS)
         (required (config this))"
  have "validate E this customerData = ?before @ [''month'', ''year''] @ ?after"
    using bad by (simp add: validate_append)
  then show "\<exists>before after. validate E this customerData = before @ [''month'', ''year''] @ after"
    by blast
next
  show "''month'' \<in> set (validate E this customerData)
        \<longleftrightarrow> \<not> validate_expiry E (customerData ''month'') (customerData ''year'')"
    unfolding set_validate offending_def using month_year_not_FIELDS by auto
next
  show "''year'' \<in> set (validate E this customerData)
        \<longleftrightarrow> \<not> validate_expiry E (customerData ''month'') (customerData ''year'')"
    unfolding set_validate offending_def using month_year_not_FIELDS by auto
qed

theorem validate_month_year_together_witness:
  "\<not> validate_expiry env0 (card1 ''month'') (card1 ''year'')
   \<and> (\<exists>before after. validate env0 direct0 card1 = before @ [''month'', ''year''] @ after)
   \<and> ''month'' \<in> set (validate env0 direct0 card1)
   \<and> ''year'' \<in> set (validate env0 direct0 card1)"
proof -
  have bad: "\<not> validate_expiry env0 (card1 ''month'') (card1 ''year'')"
    by (simp add: env0_def card1_def card0_def)
  with validate_month_year_together [of env0 card1 direct0] show ?thesis by blast
qed

text \<open>
  C3, as the claim words it, fails: a required field that is missing is not named when
  it is not one of \<^verbatim>\<open>FIELDS\<close>. Here \<open>email\<close> is required and missing, and the error names
  \<open>first_name\<close> alone.
\<close>

theorem validation_fields_counterexample:
  "tokenDispatcher env0 direct0 False \<lparr>cd_values = card0, cd_token_field = None\<rparr> (Function 0)
     = Return (log (CallDone 0 (Some (Validation [''first_name''])) None) direct0)
   \<and> ''email'' \<in> set (required (config direct0))
   \<and> \<not> truthy (card0 ''email'')
   \<and> ''email'' \<notin> set [''first_name'']"
proof -
  have "tokenDispatcher env0 direct0 False \<lparr>cd_values = card0, cd_token_field = None\<rparr> (Function 0)
     = Return (log (CallDone 0 (Some (Validation [''first_name''])) None) direct0)"
    using direct0_facts by (simp add: tokenDispatcher_def token_def validate_direct0)
  then show ?thesis by (simp add: direct0_facts card0_def)
qed

text \<open>
  C3, amended. A tokenization on a configured instance that is not a parent, with a
  completion function, and with at least one field that \<^verbatim>\<open>validate\<close> reports, returns
  after one call of the completion with a validation error; the error's fields are the
  list of \<^verbatim>\<open>validate\<close>, which names exactly the reported fields (of the required fields
  those that are missing and among \<^verbatim>\<open>FIELDS\<close>); nothing else happens, so no request is
  posted.
\<close>

theorem validation_error_no_request:
  assumes "configured this" and "\<not> isParent (config this)"
    and "\<exists>f. offending E this (cd_values customerData) f"
  shows "tokenDispatcher E this elements customerData (Function k)
           = Return (log (CallDone k (Some (Validation (validate E this (cd_values customerData))))
                       None) this)
         \<and> set (validate E this (cd_values customerData))
             = {f. offending E this (cd_values customerData) f}
         \<and> filter is_post (trace (state_of
               (tokenDispatcher E this elements customerData (Function k))))
             = filter is_post (trace this)
         \<and> calls k (state_of (tokenDispatcher E this elements customerData (Function k)))
             = Suc (calls k this)"
proof -
  let ?fs = "validate E this (cd_values customerData)"
  from assms(3) have ne: "?fs \<noteq> []"
    using set_validate [of E this "cd_values customerData"] by auto
  have "tokenDispatcher E this elements customerData (Function k)
          = Return (log (CallDone k (Some (Validation ?fs)) None) this)"
    using assms(1,2) ne by (simp add: tokenDispatcher_def token_def Let_def split: option.splits)
  then show ?thesis
    by (simp add: set_validate log_def is_post_def is_call_def calls_def)
qed

theorem validation_error_no_request_witness:
  "configured direct0 \<and> \<not> isParent (config direct0)
   \<and> offending env0 direct0 (cd_values data0) ''first_name''
   \<and> tokenDispatcher env0 direct0 False data0 (Function 0)
       = Return (log (CallDone 0 (Some (Validation [''first_name''])) None) direct0)
   \<and> filter is_post (trace (state_of (tokenDispatcher env0 direct0 False data0 (Function 0)))) = []"
proof -
  have off: "offending env0 direct0 (cd_values data0) ''first_name''"
    by (simp add: offending_def data0_def card0_def)
  then have ex: "\<exists>f. offending env0 direct0 (cd_values data0) f" ..
  have v: "validate env0 direct0 (cd_values data0) = [''first_name'']"
    by (simp add: data0_def validate_direct0)
  have t: "trace direct0 = []" by (simp add: direct0_def)
  from validation_error_no_request [OF direct0_facts(1) direct0_facts(3) ex, of False 0]
  show ?thesis using off direct0_facts by (simp add: v t log_def is_post_def)
qed

section \<open>The checks before a tokenization\<close>

text \<open>
  C2. A tokenization on an instance that is not configured throws \<open>not-configured\<close>, and
  one on a configured instance whose completion argument is not a function throws
  \<open>missing-callback\<close>. The configuration is checked first. Both are exceptions of the
  call itself: the instance is as before, with no completion called, no listener
  registered and nothing sent. Both variants of \<^verbatim>\<open>token\<close> do so.
\<close>

theorem tokenDispatcher_throws_synchronously:
  "(\<not> configured this \<longrightarrow>
       tokenDispatcher E this elements customerData done = Throw NotConfigured this
       \<and> token2 E this customerData done = Throw NotConfigured this)
   \<and> (configured this \<longrightarrow>
       tokenDispatcher E this elements customerData (NotFunction v) = Throw MissingCallback this
       \<and> token2 E this customerData (NotFunction v) = Throw MissingCallback this)"
  by (simp add: tokenDispatcher_def token2_def)

theorem tokenDispatcher_throws_synchronously_witness:
  "\<not> configured fresh0
   \<and> tokenDispatcher env0 fresh0 False data0 (Function 0) = Throw NotConfigured fresh0
   \<and> configured parent0
   \<and> tokenDispatcher env0 parent0 False data0 (NotFunction JUndefined)
       = Throw MissingCallback parent0"
proof -
  have a: "\<not> configured fresh0" by (simp add: fresh0_def)
  have b: "configured parent0" by (simp add: parent0_def)
  from tokenDispatcher_throws_synchronously [of fresh0 env0 False data0 "Function 0"]
    tokenDispatcher_throws_synchronously [of parent0 env0 False data0 _ JUndefined]
  show ?thesis using a b by blast
qed

text \<open>
  C9, as the claim words it, fails: a tokenization whose completion argument is not a
  function throws \<open>missing-callback\<close>, since that check comes before the health check of
  the hosted fields. Here the instance is a configured parent whose hosted fields
  recorded an error, and no Elements are passed.
\<close>

theorem hosted_field_error_counterexample:
  "configured parent_err \<and> isParent (config parent_err)
   \<and> map_option hf_errors (hostedFields parent_err)
       = Some [HostedFieldError ''missing-hosted-field-target'']
   \<and> tokenDispatcher env0 parent_err False data0 (NotFunction JUndefined)
       = Throw MissingCallback parent_err"
proof -
  have "configured parent_err" "isParent (config parent_err)"
    "map_option hf_errors (hostedFields parent_err)
       = Some [HostedFieldError ''missing-hosted-field-target'']"
    by (simp_all add: parent_err_def config0_def)
  then show ?thesis by (simp add: tokenDispatcher_def)
qed

text \<open>
  C9, amended. On a configured parent instance whose hosted fields recorded an error, a
  tokenization without Elements and with a completion function throws the first recorded
  error: the call ends with that exception and the instance is as before, so the
  completion is never called. A parent instance is in this situation from the moment
  \<^verbatim>\<open>parent\<close> has set its readiness to 3.
\<close>

theorem hosted_field_error_thrown:
  assumes "configured this" and "isParent (config this)" and "\<not> elements"
    and "hostedFields this = Some hf" and "hf_errors hf = e # es"
  shows "tokenDispatcher E this elements customerData (Function k) = Throw e this"
  using assms by (simp add: tokenDispatcher_def)

theorem hosted_field_error_thrown_witness:
  "constructor 2 dom_err (Some opts0) = Some (Return parent_err)
   \<and> readyState parent_err = 3
   \<and> configured parent_err \<and> isParent (config parent_err)
   \<and> tokenDispatcher env0 parent_err False data0 (Function 0)
       = Throw (HostedFieldError ''missing-hosted-field-target'') parent_err"
proof -
  have built: "constructor 2 dom_err (Some opts0) = Some (Return parent_err)"
    unfolding numeral_2_eq_2
    by (simp add: constructor_def configure_def parent_def parent_init_def parent_reset_def
        needs_reset_def merge_options_def newHostedFields_def bus_destroy_def bus_add_def
        andThen_def report_def log_def listening_def once_def on_def
        dom_err_def opts0_def DEFAULTS_def parent_err_def config0_def)
  have facts: "configured parent_err" "isParent (config parent_err)" "\<not> False"
    "hostedFields parent_err = Some \<lparr> hf_fields = config_fields config0,
        hf_errors = [HostedFieldError ''missing-hosted-field-target''], hf_state = [],
        hf_reset = False \<rparr>"
    "readyState parent_err = 3"
    by (simp_all add: parent_err_def config0_def)
  from hosted_field_error_thrown [OF facts(1) facts(2) facts(3) facts(4), of _ "[]" env0 data0 0]
  show ?thesis using built facts by simp
qed

section \<open>The correlation of a tokenization with its reply\<close>




lemma calls_log [simp]: "calls k (log e s) = calls k s + (if is_call k e then 1 else 0)"
  by (simp add: calls_def log_def)

lemma calls_upd [simp]:
  "calls k (s\<lparr>callbacks := c\<rparr>) = calls k s" "calls k (s\<lparr>uuids_drawn := u\<rparr>) = calls k s"
  by (simp_all add: calls_def)










text \<open>
  The second \<^verbatim>\<open>token\<close> reaches the same state: it sends, then subscribes.
\<close>

lemma token2_agrees:
  assumes "configured this" and "isParent (config this)" and "fraud this \<noteq> None"
    and "hostedFields this = Some hf" and "hf_errors hf = []"
    and "bus this = Some b"
  shows "token2 E this customerData (Function k)
         = tokenDispatcher E this False customerData (Function k)"
  using assms
  by (auto simp: token2_def tokenDispatcher_def token_def bus_send_def log_def Let_def)

section \<open>The frame transaction's events\<close>

lemma same_frame_refl: "same_frame fr fr"
  by (simp add: same_frame_def)

lemma same_frame_trans: "same_frame a b \<Longrightarrow> same_frame b c \<Longrightarrow> same_frame a c"
  by (simp add: same_frame_def)

lemma owner_invoke:
  assumes "is_owner l"
  shows "\<exists>fr'. Frame_invoke em p l fr = Some (Return fr') \<and> same_frame fr fr'"
proof -
  from assms obtain k where k: "snd (snd l) = Owner k"
    by (auto simp: is_owner_def split: fhandler.splits)
  have s1: "x \<in> set (remove1 l (fr_callbacks fr)) \<longleftrightarrow> x \<in> set (fr_callbacks fr)"
    if "\<not> is_owner x" for x
  proof -
    from that assms have "x \<noteq> l" by auto
    then show ?thesis by (simp add: in_set_remove1)
  qed
  have s2: "x \<in> set (fr_callbacks fr)" if "x \<in> set (remove1 l (fr_callbacks fr))" for x
    using that set_remove1_subset [of l "fr_callbacks fr"] by blast
  have a: "same_frame fr (fr\<lparr>fr_callbacks := remove1 l (fr_callbacks fr)\<rparr>)"
    by (auto simp: same_frame_def emissions_def s1 dest: s2)
  have b: "same_frame s (flog (FCallListener k p) s)" for s
    by (simp add: same_frame_def emissions_def flog_def)
  show ?thesis
    using same_frame_trans [OF a b] b [of fr]
    by (simp add: Frame_invoke_def Frame_run_handler_def k)
qed

lemma owner_listeners_run:
  assumes "\<forall>l \<in> set ls. is_owner l"
  shows "\<exists>fr'. run_listeners (Frame_invoke em p) ls fr = Some (Return fr') \<and> same_frame fr fr'"
  using assms
proof (induction ls arbitrary: fr)
  case Nil
  then show ?case by (simp add: same_frame_refl)
next
  case (Cons l ls)
  from Cons.prems have "is_owner l" by simp
  from owner_invoke [OF this, of em p fr] obtain fr1
    where 1: "Frame_invoke em p l fr = Some (Return fr1)" "same_frame fr fr1" by blast
  from Cons.prems have "\<forall>l \<in> set ls. is_owner l" by simp
  from Cons.IH [OF this, of fr1] obtain fr2
    where 2: "run_listeners (Frame_invoke em p) ls fr1 = Some (Return fr2)" "same_frame fr1 fr2"
    by blast
  from 1 2 show ?case by (auto intro: same_frame_trans)
qed

lemma owner_emit:
  assumes "\<forall>l \<in> set (fr_callbacks fr). fst l = event \<longrightarrow> is_owner l"
  shows "\<exists>fr'. Frame_emit (Suc n) event p fr = Some (Return fr')
           \<and> same_frame (flog (FEmit event p) fr) fr'"
proof -
  have "\<forall>l \<in> set (listening event (fr_callbacks fr)). is_owner l"
    using assms by (auto simp: listening_def)
  from owner_listeners_run [OF this, of "Frame_emit n" p "flog (FEmit event p) fr"]
  show ?thesis by simp
qed


lemma flog_fields [simp]:
  "fr_callbacks (flog e fr) = fr_callbacks fr" "fr_name (flog e fr) = fr_name fr"
  "fr_window (flog e fr) = fr_window fr" "fr_relay (flog e fr) = fr_relay fr"
  "popup_closed (flog e fr) = popup_closed fr" "body_children (flog e fr) = body_children fr"
  "interval (flog e fr) = interval fr"
  by (simp_all add: flog_def)

lemma awaiting_name:
  assumes "awaiting fr"
  shows "fr_name fr \<noteq> ''done''" "fr_name fr \<noteq> ''error''" "fr_name fr \<noteq> ''close''"
proof -
  let ?L = "(fr_name fr, True, Completion)"
  from assms have "?L \<in> set (listening (fr_name fr) (fr_callbacks fr))"
    by (simp add: awaiting_def)
  then have "?L \<in> set (fr_callbacks fr)" by (simp add: listening_def)
  moreover have "\<not> is_owner ?L" by (simp add: is_owner_def)
  ultimately show "fr_name fr \<noteq> ''done''" "fr_name fr \<noteq> ''error''" "fr_name fr \<noteq> ''close''"
    using assms by (auto simp: awaiting_def)
qed

lemma removeRelay_awaiting:
  assumes "case fr_relay fr of None \<Rightarrow> True
           | Some r \<Rightarrow> r \<in> set (body_children fr) \<and> distinct (body_children fr)"
  shows "\<exists>fr'. removeRelay fr = Return fr'
           \<and> fr' = fr\<lparr>body_children := body_children fr'\<rparr>
           \<and> (case fr_relay fr of None \<Rightarrow> True | Some r \<Rightarrow> r \<notin> set (body_children fr'))"
  using assms by (auto simp: removeRelay_def split: option.splits)

text \<open>
  C7, as the claim words it, fails: the completion does not destroy the transaction.
  After the completion of \<open>frame0\<close> with a result, \<open>done\<close> has been emitted and the owner
  called, but the listener for \<open>destroy\<close> is still registered, the popup has not been
  closed and the interval still runs.
\<close>

theorem completion_counterexample:
  "Frame_emit (Suc (Suc 0)) ''recurly-frame-abc'' (FRes None) frame0 = Some (Return completed0)
   \<and> \<not> destroyed completed0
   \<and> (''destroy'', True, BoundDestroy) \<in> set (fr_callbacks completed0)
   \<and> \<not> popup_closed completed0
   \<and> interval completed0 = Some 1000"
proof -
  have "Frame_emit (Suc (Suc 0)) ''recurly-frame-abc'' (FRes None) frame0
        = Some (Return completed0)"
    by (simp add: frame0_def completed0_def listening_def Frame_invoke_def
        Frame_run_handler_def removeRelay_def andThen_def flog_def)
  then show ?thesis by (simp add: completed0_def frame0_def destroyed_def)
qed

text \<open>
  C7, amended. When the completion event of a waiting frame fires, the frame removes the
  relay from the document if it has one, and emits exactly one more event: \<open>error\<close> with
  the error if the result carries one, otherwise \<open>done\<close> with the result. The one-shot
  listener is then gone, so a second completion finds no listener. The transaction is
  not destroyed by this: its window, the popup's state and the interval are as before
  and the listener for \<open>destroy\<close> stays registered.
\<close>

theorem completion_emits_one_terminal_event:
  assumes "awaiting fr"
  shows "\<exists>fr'. Frame_emit (Suc (Suc n)) (fr_name fr) (FRes err) fr = Some (Return fr')
     \<and> emissions fr' = emissions fr @ [FEmit (fr_name fr) (FRes err),
           (case err of Some e \<Rightarrow> FEmit ''error'' (FErr e) | None \<Rightarrow> FEmit ''done'' (FRes err))]
     \<and> (case fr_relay fr of None \<Rightarrow> True | Some r \<Rightarrow> r \<notin> set (body_children fr'))
     \<and> listening (fr_name fr) (fr_callbacks fr') = []
     \<and> fr_window fr' = fr_window fr \<and> popup_closed fr' = popup_closed fr
     \<and> interval fr' = interval fr
     \<and> ((''destroy'', True, BoundDestroy) \<in> set (fr_callbacks fr')
          \<longleftrightarrow> (''destroy'', True, BoundDestroy) \<in> set (fr_callbacks fr))"
proof -
  let ?L = "(fr_name fr, True, Completion)"
  let ?p = "FRes err"
  let ?ev = "case err of Some e \<Rightarrow> ''error'' | None \<Rightarrow> ''done''"
  let ?q = "case err of Some e \<Rightarrow> FErr e | None \<Rightarrow> FRes err"
  let ?s1 = "(flog (FEmit (fr_name fr) ?p) fr)\<lparr>fr_callbacks := remove1 ?L (fr_callbacks fr)\<rparr>"
  from assms have lis: "listening (fr_name fr) (fr_callbacks fr) = [?L]"
    and own: "\<forall>l \<in> set (fr_callbacks fr).
           fst l = ''done'' \<or> fst l = ''error'' \<or> fst l = ''close'' \<longrightarrow> is_owner l"
    and rel: "case fr_relay fr of None \<Rightarrow> True
           | Some r \<Rightarrow> r \<in> set (body_children fr) \<and> distinct (body_children fr)"
    by (simp_all add: awaiting_def)
  have "case fr_relay ?s1 of None \<Rightarrow> True
           | Some r \<Rightarrow> r \<in> set (body_children ?s1) \<and> distinct (body_children ?s1)"
    using rel by (auto simp: flog_def split: option.splits)
  from removeRelay_awaiting [OF this] obtain s2 where
    rr: "removeRelay ?s1 = Return s2" and s2: "s2 = ?s1\<lparr>body_children := body_children s2\<rparr>"
    and gone: "case fr_relay fr of None \<Rightarrow> True | Some r \<Rightarrow> r \<notin> set (body_children s2)"
    by (auto simp: flog_def)
  have cb2: "fr_callbacks s2 = remove1 ?L (fr_callbacks fr)"
    by (subst s2) simp
  have gone_name: "listening (fr_name fr) (fr_callbacks s2) = []"
    unfolding cb2 listening_def filter_remove1 using lis by (simp add: listening_def)
  have own2: "\<forall>l \<in> set (fr_callbacks s2). fst l = ?ev \<longrightarrow> is_owner l"
    unfolding cb2 using own set_remove1_subset [of ?L "fr_callbacks fr"]
    by (auto split: option.splits)
  from owner_emit [OF own2, of n ?q] obtain fr' where
    e: "Frame_emit (Suc n) ?ev ?q s2 = Some (Return fr')"
    and sf: "same_frame (flog (FEmit ?ev ?q) s2) fr'"
    by blast
  have inv_step: "Frame_invoke (Frame_emit (Suc n)) ?p ?L (flog (FEmit (fr_name fr) ?p) fr)
                  = Frame_emit (Suc n) ?ev ?q s2"
    using rr by (cases err) (simp_all add: Frame_invoke_def Frame_run_handler_def andThen_def
        del: Frame_emit.simps)
  have top: "Frame_emit (Suc (Suc n)) (fr_name fr) ?p fr = Some (Return fr')"
    by (subst Frame_emit.simps(2)) (simp add: lis inv_step e del: Frame_emit.simps)
  have em: "emissions fr' = emissions fr @ [FEmit (fr_name fr) ?p,
           (case err of Some e \<Rightarrow> FEmit ''error'' (FErr e) | None \<Rightarrow> FEmit ''done'' (FRes err))]"
  proof -
    have "emissions fr' = emissions (flog (FEmit ?ev ?q) s2)"
      using sf by (simp add: same_frame_def)
    also have "\<dots> = emissions s2 @ [FEmit ?ev ?q]"
      by (simp add: emissions_def flog_def)
    also have "emissions s2 = emissions fr @ [FEmit (fr_name fr) ?p]"
      by (subst s2) (simp add: emissions_def flog_def)
    finally show ?thesis by (cases err) simp_all
  qed
  have fields: "fr_window fr' = fr_window fr" "popup_closed fr' = popup_closed fr"
    "interval fr' = interval fr" "body_children fr' = body_children s2"
    using sf by (subst (asm) s2, simp add: same_frame_def flog_def)+
  have nonowner: "l \<in> set (fr_callbacks fr') \<longleftrightarrow> l \<in> set (fr_callbacks s2)"
    if "\<not> is_owner l" for l
    using sf that by (simp add: same_frame_def del: split_paired_All)
  have owner: "l \<in> set (fr_callbacks s2)" if "is_owner l" "l \<in> set (fr_callbacks fr')" for l
    using sf that by (simp add: same_frame_def del: split_paired_All)
  have none_left: "listening (fr_name fr) (fr_callbacks fr') = []"
  proof -
    have "fst l \<noteq> fr_name fr" if "l \<in> set (fr_callbacks fr')" for l
    proof -
      from that have "l \<in> set (fr_callbacks s2)"
        using nonowner [of l] owner [of l] by blast
      with gone_name show ?thesis by (auto simp: listening_def filter_empty_conv)
    qed
    then show ?thesis by (auto simp: listening_def filter_empty_conv)
  qed
  have d: "(''destroy'', True, BoundDestroy) \<in> set (fr_callbacks fr')
          \<longleftrightarrow> (''destroy'', True, BoundDestroy) \<in> set (fr_callbacks fr)"
  proof -
    have "\<not> is_owner (''destroy'', True, BoundDestroy)" by (simp add: is_owner_def)
    from nonowner [OF this] show ?thesis by (simp add: cb2 in_set_remove1)
  qed
  from gone fields(4) have gone': "case fr_relay fr of None \<Rightarrow> True
      | Some r \<Rightarrow> r \<notin> set (body_children fr')" by (simp split: option.splits)
  from top em gone' none_left fields(1-3) d show ?thesis by blast
qed

theorem completion_emits_one_terminal_event_witness:
  "awaiting frame0
   \<and> (\<exists>fr'. Frame_emit (Suc (Suc 0)) ''recurly-frame-abc'' (FRes (Some (ApiError ''declined''))) frame0
              = Some (Return fr')
          \<and> emissions fr' = [FEmit ''recurly-frame-abc'' (FRes (Some (ApiError ''declined''))),
                FEmit ''error'' (FErr (ApiError ''declined''))]
          \<and> listening ''recurly-frame-abc'' (fr_callbacks fr') = [])"
proof -
  have a: "awaiting frame0"
    by (simp add: awaiting_def frame0_def listening_def is_owner_def)
  have n: "fr_name frame0 = ''recurly-frame-abc''" and e: "emissions frame0 = []"
    by (simp_all add: frame0_def emissions_def)
  from completion_emits_one_terminal_event [OF a, of 0 "Some (ApiError ''declined'')"]
  show ?thesis using a unfolding n e by auto
qed





section \<open>Destroying twice\<close>

lemma bus_destroy_idem: "bus_destroy (bus_destroy this) = bus_destroy this"
  by (simp add: bus_destroy_def log_def split: option.splits)

text \<open>With the bus and the fraud collector as modelled, the orchestrator's second
  \<^verbatim>\<open>destroy\<close> changes nothing.\<close>

lemma destroy_idempotent: "destroy (destroy this) = destroy this"
proof -
  have r: "reporter (destroy this) = False"
    by (simp add: destroy_def Let_def log_def)
  have c: "callbacks (destroy this) = []"
    by (simp add: destroy_def Let_def log_def bus_destroy_def split: option.splits fraud_state.splits)
  have f: "fraud (destroy this) = None \<or> fraud (destroy this) = Some FraudDestroyed"
    by (simp add: destroy_def Let_def log_def bus_destroy_def split: option.splits fraud_state.splits)
  have b: "bus (destroy this) = None \<or> (\<exists>b. bus (destroy this) = Some b \<and> bus_destroyed b)"
    by (simp add: destroy_def Let_def log_def bus_destroy_def split: option.splits fraud_state.splits)
  from r c f b show ?thesis
    by (subst destroy_def) (auto simp: Let_def bus_destroy_def)
qed

text \<open>So does the second \<^verbatim>\<open>destroy\<close> of a frame that has no relay.\<close>

lemma Frame_destroy_idempotent_without_relay:
  assumes "fr_relay fr = None"
  shows "Frame_destroy fr = Return (state_of (Frame_destroy fr))"
    and "Frame_destroy (state_of (Frame_destroy fr)) = Return (state_of (Frame_destroy fr))"
  using assms
  by (cases "fr_window fr"; simp add: Frame_destroy_def removeRelay_def Let_def)+

text \<open>
  C6. The second \<^verbatim>\<open>destroy\<close> of a frame with a relay is not without effect: \<^verbatim>\<open>removeRelay\<close>
  never forgets the relay it has removed, so it asks the document to remove it again,
  and \<^verbatim>\<open>removeChild\<close> raises \<^verbatim>\<open>NotFoundError\<close>.
\<close>

theorem Frame_destroy_twice_throws:
  "Frame_destroy relayed0 = Return relayed_destroyed0
   \<and> Frame_destroy relayed_destroyed0 = Throw NotFoundError relayed_destroyed0"
  by (simp add: relayed0_def relayed_destroyed0_def Frame_constructor_def listen_def
      prepare_def create_def bindWindowCloseListener_def once_def Frame_destroy_def
      removeRelay_def)

end
